theory Spec2Isabelle
  imports Main
begin

section \<open>A shallow embedding of the dotenv configuration registry (dotenv.go)\<close>

text \<open>
  The Go package keeps a process-wide cache \<open>cachedConfig\<close> (file path to key/value
  mapping) behind one \<open>sync.RWMutex\<close>, and resolves a key against the process
  environment and that cache. The embedding below follows one goroutine: every function
  of dotenv.go becomes a function from the world before the call to an outcome and the
  world after it. Panics are outcomes, and so is a lock acquisition that can never be
  granted because the calling goroutine itself holds the lock.
\<close>

subsection \<open>Values, errors and outcomes\<close>

text \<open>Go's \<open>interface{}\<close>: the untyped nil and a few dynamic types.\<close>

datatype val = VNil | VString string | VInt int | VBool bool

text \<open>
  \<open>ErrNotExist\<close> is \<open>os.ErrNotExist\<close>; \<open>IOError\<close> stands for any other error the file
  primitives report; \<open>FailedToWrite\<close> is the error that \<open>writeConfig\<close> builds with
  \<open>fmt.Errorf("failed to write to config file: %q", err)\<close>.
\<close>

datatype error = ErrNotExist | IOError string | FailedToWrite error

text \<open>
  Run-time panics of the Go code: calling \<open>IsDir\<close> on the nil \<open>FileInfo\<close> that
  \<open>os.Stat\<close> returns beside an error, and assigning into a nil map.
\<close>

datatype panic = NilPointerDereference | AssignmentToNilMap

datatype 'a outcome = Return 'a | Panic panic | Deadlock

type_synonym config = "string \<rightharpoonup> val"

subsection \<open>The reader/writer lock\<close>

record RWMutex =
  writer :: bool
  readers :: nat

definition unlocked :: RWMutex where
  "unlocked = \<lparr>writer = False, readers = 0\<rparr>"

text \<open>
  \<open>Lock\<close> is granted only when nobody holds the lock for reading or writing; \<open>RLock\<close>
  only when nobody holds it for writing. \<open>None\<close> means the call blocks: along one
  goroutine, with nobody else to release the lock, it blocks for ever. Every \<open>Unlock\<close>
  and \<open>RUnlock\<close> of dotenv.go follows the matching acquisition in the same function,
  so the fatal error of releasing a lock that is not held has no place here.
\<close>

definition Lock :: "RWMutex \<Rightarrow> RWMutex option" where
  "Lock m = (if writer m \<or> 0 < readers m then None else Some (m\<lparr>writer := True\<rparr>))"

definition Unlock :: "RWMutex \<Rightarrow> RWMutex" where
  "Unlock m = m\<lparr>writer := False\<rparr>"

definition RLock :: "RWMutex \<Rightarrow> RWMutex option" where
  "RLock m = (if writer m then None else Some (m\<lparr>readers := Suc (readers m)\<rparr>))"

definition RUnlock :: "RWMutex \<Rightarrow> RWMutex" where
  "RUnlock m = m\<lparr>readers := readers m - 1\<rparr>"

subsection \<open>The world: environment, cache, lock and disk\<close>

text \<open>
  \<open>env\<close> is the process environment (\<open>os.LookupEnv\<close>), \<open>cachedConfig\<close> and \<open>mu\<close> are the
  package variables of the same names, \<open>disk\<close> is the file system, of a type the
  embedding does not look into.
\<close>

record 'd world =
  env :: "string \<rightharpoonup> string"
  cachedConfig :: "string \<rightharpoonup> config"
  mu :: RWMutex
  disk :: 'd

text \<open>What \<open>os.Stat\<close> answers: no such file, another error, or a \<open>FileInfo\<close> with its
  \<open>IsDir\<close> bit.\<close>

datatype stat_result = StatNotExist | StatError | StatInfo bool

text \<open>
  The functions that dotenv.go calls and does not define are parameters of the
  embedding. Reading needs \<open>os.Stat\<close> of the standard library and the package's own
  \<open>readAndParseConfig\<close> (defined in another file of the package).
\<close>

record 'd reader =
  os_Stat :: "'d \<Rightarrow> string \<Rightarrow> stat_result"
  readAndParseConfig :: "'d \<Rightarrow> string \<Rightarrow> string \<Rightarrow> error + config"

text \<open>
  Writing needs \<open>os.MkdirAll\<close> and \<open>filepath.Join\<close> of the standard library,
  \<open>cast.ToString\<close> of spf13/cast, the package's own \<open>WriteFile\<close>, and the order in
  which a \<open>range\<close> loop visits a Go map (\<open>range_map\<close>, unspecified by the language).
\<close>

record 'd writer_ops =
  os_MkdirAll :: "'d \<Rightarrow> string \<Rightarrow> 'd"
  WriteFile :: "'d \<Rightarrow> string \<Rightarrow> string \<Rightarrow> error option \<times> 'd"
  filepath_Join :: "string \<Rightarrow> string \<Rightarrow> string"
  cast_ToString :: "val \<Rightarrow> string"
  range_map :: "config \<Rightarrow> (string \<times> val) list"

text \<open>Sequencing: a panic or a blocked call ends the computation where it stands.\<close>

definition and_then ::
  "'a outcome \<times> 's \<Rightarrow> ('a \<Rightarrow> 's \<Rightarrow> 'b outcome \<times> 's) \<Rightarrow> 'b outcome \<times> 's" where
  "and_then r f =
     (case r of
        (Return a, s) \<Rightarrow> f a s
      | (Panic x, s) \<Rightarrow> (Panic x, s)
      | (Deadlock, s) \<Rightarrow> (Deadlock, s))"

subsection \<open>Strings\<close>

text \<open>
  \<open>strings.ToUpper\<close> on ASCII text, which is what environment variable names are: the
  bytes \<open>a\<close> to \<open>z\<close> move to \<open>A\<close> to \<open>Z\<close>, every other byte stays.
\<close>

definition upper_byte :: "char \<Rightarrow> char" where
  "upper_byte c =
     (let n = (of_char c :: nat) in if 97 \<le> n \<and> n \<le> 122 then char_of (n - 32) else c)"

definition ToUpper :: "string \<Rightarrow> string" where
  "ToUpper s = map upper_byte s"

text \<open>\<open>strings.HasPrefix(s, prefix)\<close>: does \<open>s\<close> begin with \<open>prefix\<close>?\<close>

definition HasPrefix :: "string \<Rightarrow> string \<Rightarrow> bool" where
  "HasPrefix s pre = (take (length pre) s = pre)"

text \<open>\<open>strings.TrimSuffix(s, suffix)\<close>.\<close>

definition TrimSuffix :: "string \<Rightarrow> string \<Rightarrow> string" where
  "TrimSuffix s suf =
     (if length suf \<le> length s \<and> drop (length s - length suf) s = suf
      then take (length s - length suf) s else s)"

subsection \<open>The registry\<close>

record DotEnv =
  ConfigFile :: string
  Separator :: string
  prefix :: string
  allowEmptyEnvVars :: bool

definition DefaultConfigFile :: string where
  "DefaultConfigFile = ''.env''"

definition DefaultSeparator :: string where
  "DefaultSeparator = ''=''"

definition Init :: "string list \<Rightarrow> DotEnv" where
  "Init file =
     (let configFile = (case file of [] \<Rightarrow> [] | f # _ \<Rightarrow> f);
          configFile = (if configFile = [] then DefaultConfigFile else configFile)
      in \<lparr>ConfigFile = configFile, Separator = DefaultSeparator,
          prefix = [], allowEmptyEnvVars = False\<rparr>)"

definition SetPrefix :: "DotEnv \<Rightarrow> string \<Rightarrow> DotEnv" where
  "SetPrefix e p = e\<lparr>prefix := ToUpper p @ ''_''\<rparr>"

definition GetPrefix :: "DotEnv \<Rightarrow> string" where
  "GetPrefix e = TrimSuffix (prefix e) ''_''"

text \<open>
  \<open>addPrefix\<close> as written: the test is \<open>strings.HasPrefix(e.prefix, key)\<close>, the
  registry's prefix first and the key second.
\<close>

definition addPrefix :: "DotEnv \<Rightarrow> string \<Rightarrow> string" where
  "addPrefix e key =
     (if prefix e = [] then key
      else if HasPrefix (prefix e) key then key
      else prefix e @ key)"

definition AllowEmptyEnvVars :: "DotEnv \<Rightarrow> bool \<Rightarrow> DotEnv" where
  "AllowEmptyEnvVars e b = e\<lparr>allowEmptyEnvVars := b\<rparr>"

definition SetConfigFile :: "DotEnv \<Rightarrow> string \<Rightarrow> DotEnv" where
  "SetConfigFile e configFile = e\<lparr>ConfigFile := configFile\<rparr>"

subsection \<open>Reading\<close>

text \<open>
  \<open>checkFileExists\<close>: only a not-exist error of \<open>os.Stat\<close> is caught; after any other
  error \<open>info\<close> is nil and \<open>info.IsDir()\<close> panics.
\<close>

definition checkFileExists :: "'d reader \<Rightarrow> 'd \<Rightarrow> string \<Rightarrow> bool outcome" where
  "checkFileExists p d filename =
     (case os_Stat p d filename of
        StatNotExist \<Rightarrow> Return False
      | StatError \<Rightarrow> Panic NilPointerDereference
      | StatInfo isDir \<Rightarrow> Return (\<not> isDir))"

text \<open>\<open>LoadConfig\<close> returns an error or nil (\<open>None\<close>); it takes no lock.\<close>

definition LoadConfig ::
  "'d reader \<Rightarrow> DotEnv \<Rightarrow> 'd world \<Rightarrow> error option outcome \<times> 'd world" where
  "LoadConfig p e s =
     (case checkFileExists p (disk s) (ConfigFile e) of
        Panic x \<Rightarrow> (Panic x, s)
      | Deadlock \<Rightarrow> (Deadlock, s)
      | Return False \<Rightarrow> (Return (Some ErrNotExist), s)
      | Return True \<Rightarrow>
          (case readAndParseConfig p (disk s) (ConfigFile e) (Separator e) of
             Inl err \<Rightarrow> (Return (Some err), s)
           | Inr c \<Rightarrow>
               (Return None, s\<lparr>cachedConfig := (cachedConfig s)(ConfigFile e \<mapsto> c)\<rparr>)))"

text \<open>The last lines of \<open>GetFromFile\<close>: the key in the file's mapping.\<close>

definition lookup_key :: "config \<Rightarrow> string \<Rightarrow> val \<times> bool \<times> error option" where
  "lookup_key configCache key =
     (case configCache key of
        Some cachedEnv \<Rightarrow> (cachedEnv, True, None)
      | None \<Rightarrow> (VString [], False, None))"

text \<open>
  \<open>GetFromFile\<close> takes the exclusive lock for its whole body once the file is known to
  exist, and releases it on every return (\<open>defer mu.Unlock()\<close>). The package variable
  \<open>cachedConfig\<close> is made at start-up and never set to nil, so the re-allocation
  under \<open>if cachedConfig == nil\<close> does nothing.
\<close>

definition GetFromFile ::
  "'d reader \<Rightarrow> string \<Rightarrow> string \<Rightarrow> string \<Rightarrow> 'd world
     \<Rightarrow> (val \<times> bool \<times> error option) outcome \<times> 'd world" where
  "GetFromFile p filePath key separator s =
     (case checkFileExists p (disk s) filePath of
        Panic x \<Rightarrow> (Panic x, s)
      | Deadlock \<Rightarrow> (Deadlock, s)
      | Return False \<Rightarrow> (Return (VString [], False, Some ErrNotExist), s)
      | Return True \<Rightarrow>
          (case Lock (mu s) of
             None \<Rightarrow> (Deadlock, s)
           | Some m \<Rightarrow>
               (case cachedConfig s filePath of
                  Some configCache \<Rightarrow>
                    (Return (lookup_key configCache key), s\<lparr>mu := Unlock m\<rparr>)
                | None \<Rightarrow>
                    (case readAndParseConfig p (disk s) filePath separator of
                       Inl err \<Rightarrow> (Return (VNil, False, Some err), s\<lparr>mu := Unlock m\<rparr>)
                     | Inr c \<Rightarrow>
                         (Return (lookup_key c key),
                          s\<lparr>cachedConfig := (cachedConfig s)(filePath \<mapsto> c),
                            mu := Unlock m\<rparr>)))))"

text \<open>\<open>os.Getenv\<close>: the value, or the empty string when the variable is not set.\<close>

definition Getenv :: "'d world \<Rightarrow> string \<Rightarrow> string" where
  "Getenv s key = (case env s key of Some v \<Rightarrow> v | None \<Rightarrow> [])"

definition getConfigValueWithKey ::
  "'d reader \<Rightarrow> string \<Rightarrow> string \<Rightarrow> string \<Rightarrow> 'd world
     \<Rightarrow> (val \<times> bool \<times> error option) outcome \<times> 'd world" where
  "getConfigValueWithKey p configFile key separator s =
     (if Getenv s key = [] then GetFromFile p configFile key separator s
      else (Return (VString (Getenv s key), False, None), s))"

text \<open>
  \<open>Get\<close>. The only early return on the environment is for a variable that is set,
  empty, and not allowed to be empty; in every other case the cache and file are asked
  first, and \<open>getConfigValueWithKey\<close> (environment, then file again) comes last.
\<close>

definition Get :: "'d reader \<Rightarrow> DotEnv \<Rightarrow> string \<Rightarrow> 'd world \<Rightarrow> val outcome \<times> 'd world" where
  "Get p e key0 s =
     (if key0 = [] then (Return (VString []), s)
      else
        (let key = ToUpper (addPrefix e key0) in
         if env s key = Some [] \<and> \<not> allowEmptyEnvVars e then (Return (VString []), s)
         else
           and_then (GetFromFile p (ConfigFile e) key (Separator e) s)
             (\<lambda>(val, ok, err) s1.
                if err = None \<and> ok then (Return val, s1)
                else
                  and_then (getConfigValueWithKey p (ConfigFile e) key (Separator e) s1)
                    (\<lambda>(envFromFile, _, _) s2. (Return envFromFile, s2)))))"

definition IsSet :: "'d reader \<Rightarrow> DotEnv \<Rightarrow> string \<Rightarrow> 'd world \<Rightarrow> bool outcome \<times> 'd world" where
  "IsSet p e key s = and_then (Get p e key s) (\<lambda>v s1. (Return (v \<noteq> VNil), s1))"

text \<open>\<open>LookUp\<close> hands the key to \<open>GetFromFile\<close> as it is.\<close>

definition LookUp ::
  "'d reader \<Rightarrow> DotEnv \<Rightarrow> string \<Rightarrow> 'd world \<Rightarrow> (val \<times> bool) outcome \<times> 'd world" where
  "LookUp p e key s =
     and_then (GetFromFile p (ConfigFile e) key (Separator e) s)
       (\<lambda>(env, isSet, _) s1. (Return (env, isSet), s1))"

subsection \<open>Writing\<close>

text \<open>
  \<open>Set\<close>: \<open>cachedConfig[e.ConfigFile][key] = value\<close>. When the file has no entry, the
  inner map read is the nil map and the assignment panics, with the lock still held
  (there is no \<open>defer\<close>).
\<close>

definition Set_value :: "DotEnv \<Rightarrow> string \<Rightarrow> val \<Rightarrow> 'd world \<Rightarrow> unit outcome \<times> 'd world" where
  "Set_value e key0 v s =
     (let key = ToUpper (addPrefix e key0) in
      case Lock (mu s) of
        None \<Rightarrow> (Deadlock, s)
      | Some m \<Rightarrow>
          (case cachedConfig s (ConfigFile e) of
             None \<Rightarrow> (Panic AssignmentToNilMap, s\<lparr>mu := m\<rparr>)
           | Some c \<Rightarrow>
               (Return (),
                s\<lparr>cachedConfig := (cachedConfig s)(ConfigFile e \<mapsto> c(key \<mapsto> v)),
                  mu := Unlock m\<rparr>)))"

definition InvalidateEnvCacheForFile :: "string \<Rightarrow> 'd world \<Rightarrow> unit outcome \<times> 'd world" where
  "InvalidateEnvCacheForFile filePath s =
     (case Lock (mu s) of
        None \<Rightarrow> (Deadlock, s)
      | Some m \<Rightarrow>
          (Return (), s\<lparr>cachedConfig := (cachedConfig s)(filePath := None), mu := Unlock m\<rparr>))"

text \<open>
  \<open>writeConfig\<close>: the directory is made (its error dropped), the file is written, and
  the deferred \<open>InvalidateEnvCacheForFile\<close> runs before \<open>writeConfig\<close> returns the
  result computed from the write.
\<close>

definition writeConfig ::
  "'d writer_ops \<Rightarrow> string \<Rightarrow> string \<Rightarrow> 'd world \<Rightarrow> error option outcome \<times> 'd world" where
  "writeConfig p cfgFile data s =
     (let d1 = os_MkdirAll p (disk s) (filepath_Join p cfgFile ''..'');
          w = WriteFile p d1 cfgFile data;
          result = (case fst w of Some err \<Rightarrow> Some (FailedToWrite err) | None \<Rightarrow> None)
      in and_then (InvalidateEnvCacheForFile cfgFile (s\<lparr>disk := snd w\<rparr>))
           (\<lambda>_ s1. (Return result, s1)))"

text \<open>The text that \<open>Save\<close> builds, one line per pair in the order of the \<open>range\<close> loop.\<close>

definition cfgData_of :: "'d writer_ops \<Rightarrow> DotEnv \<Rightarrow> config option \<Rightarrow> string" where
  "cfgData_of p e entry =
     concat (map (\<lambda>(key, v). key @ Separator e @ cast_ToString p v @ [CHR 0x0A])
               (case entry of None \<Rightarrow> [] | Some c \<Rightarrow> range_map p c))"

text \<open>
  \<open>Save\<close> takes the shared lock, defers its release, and calls \<open>writeConfig\<close> while
  holding it. The deferred \<open>RUnlock\<close> runs when \<open>writeConfig\<close> has returned or
  panicked.
\<close>

definition Save :: "'d writer_ops \<Rightarrow> DotEnv \<Rightarrow> 'd world \<Rightarrow> error option outcome \<times> 'd world" where
  "Save p e s =
     (case RLock (mu s) of
        None \<Rightarrow> (Deadlock, s)
      | Some m \<Rightarrow>
          (case writeConfig p (ConfigFile e)
                  (cfgData_of p e (cachedConfig s (ConfigFile e))) (s\<lparr>mu := m\<rparr>) of
             (Return r, s1) \<Rightarrow> (Return r, s1\<lparr>mu := RUnlock (mu s1)\<rparr>)
           | (Panic x, s1) \<Rightarrow> (Panic x, s1\<lparr>mu := RUnlock (mu s1)\<rparr>)
           | (Deadlock, s1) \<Rightarrow> (Deadlock, s1)))"

definition Write ::
  "'d writer_ops \<Rightarrow> DotEnv \<Rightarrow> string \<Rightarrow> val \<Rightarrow> 'd world \<Rightarrow> error option outcome \<times> 'd world" where
  "Write p e key v s = and_then (Set_value e key v s) (\<lambda>_ s1. Save p e s1)"

subsection \<open>A small file system for evaluation\<close>

text \<open>
  For evaluating the functions at concrete worlds: a disk maps a path to nothing, a
  directory, a regular file that cannot be read, or a regular file together with the
  mapping that \<open>readAndParseConfig\<close> reads from it.
\<close>

datatype node = NoFile | Directory | Unreadable error | Readable config

definition simple_reader :: "(string \<Rightarrow> node) reader" where
  "simple_reader =
     \<lparr>os_Stat = (\<lambda>d path. case d path of
                   NoFile \<Rightarrow> StatNotExist
                 | Directory \<Rightarrow> StatInfo True
                 | Unreadable _ \<Rightarrow> StatInfo False
                 | Readable _ \<Rightarrow> StatInfo False),
      readAndParseConfig = (\<lambda>d path separator. case d path of
                   NoFile \<Rightarrow> Inl ErrNotExist
                 | Directory \<Rightarrow> Inl (IOError ''is a directory'')
                 | Unreadable err \<Rightarrow> Inl err
                 | Readable c \<Rightarrow> Inr c)\<rparr>"

text \<open>A world with nothing cached, the lock free, and the given environment and disk.\<close>

definition fresh :: "(string \<rightharpoonup> string) \<Rightarrow> 'd \<Rightarrow> 'd world" where
  "fresh vars d = \<lparr>env = vars, cachedConfig = Map.empty, mu = unlocked, disk = d\<rparr>"

section \<open>Properties\<close>

subsection \<open>Evaluation and the lock\<close>

lemmas string_eval = ToUpper_def upper_byte_def char_of_def bit_0 HasPrefix_def

lemmas world_eval = fresh_def Init_def SetPrefix_def addPrefix_def DefaultConfigFile_def
  DefaultSeparator_def simple_reader_def checkFileExists_def GetFromFile_def
  getConfigValueWithKey_def Getenv_def lookup_key_def and_then_def Lock_def Unlock_def
  unlocked_def Let_def

lemma Lock_unlocked: "Lock unlocked = Some (unlocked\<lparr>writer := True\<rparr>)"
  by (simp add: Lock_def unlocked_def)

lemma Unlock_locked: "Unlock (unlocked\<lparr>writer := True\<rparr>) = unlocked"
  by (simp add: Unlock_def unlocked_def)

lemma ToUpper_Nil_iff: "ToUpper k = [] \<longleftrightarrow> k = []"
  by (simp add: ToUpper_def)

subsection \<open>The four ways through \<open>GetFromFile\<close> when the lock is free\<close>

lemma GetFromFile_missing:
  assumes "checkFileExists p (disk s) f = Return False"
  shows "GetFromFile p f k sep s = (Return (VString [], False, Some ErrNotExist), s)"
  using assms by (simp add: GetFromFile_def)

lemma GetFromFile_cached:
  assumes "checkFileExists p (disk s) f = Return True" "mu s = unlocked"
    and "cachedConfig s f = Some c"
  shows "GetFromFile p f k sep s = (Return (lookup_key c k), s)"
  using assms by (simp add: GetFromFile_def Lock_unlocked Unlock_locked)

lemma GetFromFile_unreadable:
  assumes "checkFileExists p (disk s) f = Return True" "mu s = unlocked"
    and "cachedConfig s f = None" "readAndParseConfig p (disk s) f sep = Inl err"
  shows "GetFromFile p f k sep s = (Return (VNil, False, Some err), s)"
  using assms by (simp add: GetFromFile_def Lock_unlocked Unlock_locked)

lemma GetFromFile_populate:
  assumes "checkFileExists p (disk s) f = Return True" "mu s = unlocked"
    and "cachedConfig s f = None" "readAndParseConfig p (disk s) f sep = Inr c"
  shows "GetFromFile p f k sep s =
           (Return (lookup_key c k), s\<lparr>cachedConfig := (cachedConfig s)(f \<mapsto> c)\<rparr>)"
  using assms by (simp add: GetFromFile_def Lock_unlocked Unlock_locked)

subsection \<open>\<open>Get\<close> when the key is not in the environment\<close>

lemma Getenv_unset: "env s k = None \<Longrightarrow> Getenv s k = []"
  by (simp add: Getenv_def)

lemma Get_file_missing:
  assumes "key \<noteq> []" "checkFileExists p (disk s) (ConfigFile e) = Return False"
    and "env s (ToUpper (addPrefix e key)) = None"
  shows "Get p e key s = (Return (VString []), s)"
  using assms by (simp add: Get_def and_then_def GetFromFile_missing getConfigValueWithKey_def Getenv_unset)

lemma Get_cached:
  assumes "key \<noteq> []" "checkFileExists p (disk s) (ConfigFile e) = Return True"
    and "mu s = unlocked" "cachedConfig s (ConfigFile e) = Some c"
    and "env s (ToUpper (addPrefix e key)) = None"
  shows "Get p e key s =
           (Return (case c (ToUpper (addPrefix e key)) of Some v \<Rightarrow> v | None \<Rightarrow> VString []), s)"
  using assms
  by (simp add: Get_def and_then_def GetFromFile_cached getConfigValueWithKey_def Getenv_unset
      lookup_key_def split: option.splits)

lemma Get_unreadable:
  assumes "key \<noteq> []" "checkFileExists p (disk s) (ConfigFile e) = Return True"
    and "mu s = unlocked" "cachedConfig s (ConfigFile e) = None"
    and "readAndParseConfig p (disk s) (ConfigFile e) (Separator e) = Inl err"
    and "env s (ToUpper (addPrefix e key)) = None"
  shows "Get p e key s = (Return VNil, s)"
  using assms
  by (simp add: Get_def and_then_def GetFromFile_unreadable getConfigValueWithKey_def Getenv_unset)

lemma Get_populate:
  assumes "key \<noteq> []" "checkFileExists p (disk s) (ConfigFile e) = Return True"
    and "mu s = unlocked" "cachedConfig s (ConfigFile e) = None"
    and "readAndParseConfig p (disk s) (ConfigFile e) (Separator e) = Inr c"
    and "env s (ToUpper (addPrefix e key)) = None"
  shows "Get p e key s =
           (Return (case c (ToUpper (addPrefix e key)) of Some v \<Rightarrow> v | None \<Rightarrow> VString []),
            s\<lparr>cachedConfig := (cachedConfig s)(ConfigFile e \<mapsto> c)\<rparr>)"
proof -
  let ?s1 = "s\<lparr>cachedConfig := (cachedConfig s)(ConfigFile e \<mapsto> c)\<rparr>"
  have first: "GetFromFile p (ConfigFile e) k (Separator e) s = (Return (lookup_key c k), ?s1)" for k
    using assms by (simp add: GetFromFile_populate)
  have second: "GetFromFile p (ConfigFile e) k (Separator e) ?s1 = (Return (lookup_key c k), ?s1)" for k
    using assms by (simp add: GetFromFile_cached)
  show ?thesis
    using assms(1,6)
    by (simp add: Get_def and_then_def first second getConfigValueWithKey_def Getenv_def
        lookup_key_def split: option.splits)
qed

subsection \<open>Precedence of the environment\<close>

text \<open>
  C1. The claim: when the transformed key is set in the environment with a non-empty
  value (or with any value while \<open>allowEmptyEnvVars\<close> is true), \<open>Get\<close> returns the
  environment's value, ahead of any cached or file value. The code asks the file's
  mapping first in exactly these cases. With \<open>SECRET=secretFromEnv\<close> in the environment
  and \<open>SECRET=secretFromConfig\<close> in the file (the example of the \<open>DotEnv\<close> doc
  comment), \<open>Get\<close> returns \<open>secretFromConfig\<close>; and with \<open>SECRET\<close> set to the empty
  string and empty values allowed, it returns \<open>secretFromConfig\<close> as well.
\<close>

theorem Get_prefers_file_value_over_environment:
  "fst (Get simple_reader (Init []) ''secret''
          (fresh [''SECRET'' \<mapsto> ''secretFromEnv'']
             ((\<lambda>_. NoFile)(''.env'' := Readable [''SECRET'' \<mapsto> VString ''secretFromConfig'']))))
     = Return (VString ''secretFromConfig'')
   \<and> fst (Get simple_reader (AllowEmptyEnvVars (Init []) True) ''secret''
          (fresh [''SECRET'' \<mapsto> []]
             ((\<lambda>_. NoFile)(''.env'' := Readable [''SECRET'' \<mapsto> VString ''secretFromConfig'']))))
     = Return (VString ''secretFromConfig'')"
  by (simp add: Get_def AllowEmptyEnvVars_def world_eval string_eval)

text \<open>
  C2. For a non-empty key whose transformed name is set in the environment to the empty
  string while \<open>allowEmptyEnvVars\<close> is false, \<open>Get\<close> returns the empty string at once:
  the world is untouched, so neither the cache nor the file was consulted.
\<close>

theorem Get_empty_env_short_circuits:
  assumes "key \<noteq> []"
    and "env s (ToUpper (addPrefix e key)) = Some []"
    and "\<not> allowEmptyEnvVars e"
  shows "Get p e key s = (Return (VString []), s)"
  using assms by (simp add: Get_def)

theorem Get_empty_env_short_circuits_witness:
  "''debug'' \<noteq> []
   \<and> env ((fresh [''DEBUG'' \<mapsto> []] (\<lambda>_. NoFile))
              \<lparr>cachedConfig := [''.env'' \<mapsto> [''DEBUG'' \<mapsto> VString ''true'']]\<rparr>)
         (ToUpper (addPrefix (Init []) ''debug'')) = Some []
   \<and> \<not> allowEmptyEnvVars (Init [])
   \<and> Get simple_reader (Init []) ''debug''
         ((fresh [''DEBUG'' \<mapsto> []] (\<lambda>_. NoFile))
            \<lparr>cachedConfig := [''.env'' \<mapsto> [''DEBUG'' \<mapsto> VString ''true'']]\<rparr>)
       = (Return (VString []),
          (fresh [''DEBUG'' \<mapsto> []] (\<lambda>_. NoFile))
            \<lparr>cachedConfig := [''.env'' \<mapsto> [''DEBUG'' \<mapsto> VString ''true'']]\<rparr>)"
  using Get_empty_env_short_circuits
    [of "''debug''"
        "(fresh [''DEBUG'' \<mapsto> []] (\<lambda>_. NoFile))
            \<lparr>cachedConfig := [''.env'' \<mapsto> [''DEBUG'' \<mapsto> VString ''true'']]\<rparr>"
        "Init []" simple_reader]
  by (simp add: fresh_def Init_def addPrefix_def string_eval)

subsection \<open>The key transform\<close>

text \<open>
  C3. The claim: with a non-empty prefix, the prefix is prepended exactly when the key
  does not already start with it. \<open>addPrefix\<close> tests the opposite way round (whether
  the prefix starts with the key). After \<open>SetPrefix("app")\<close> the prefix is \<open>APP_\<close>; the
  key \<open>APP_HOST\<close>, which starts with it, becomes \<open>APP_APP_HOST\<close>, and the key \<open>APP\<close>,
  which does not, is left as it is.
\<close>

theorem addPrefix_tests_prefix_against_key:
  "prefix (SetPrefix (Init []) ''app'') = ''APP_''
   \<and> addPrefix (SetPrefix (Init []) ''app'') ''APP_HOST'' = ''APP_APP_HOST''
   \<and> addPrefix (SetPrefix (Init []) ''app'') ''APP'' = ''APP''"
  by (simp add: world_eval string_eval)

text \<open>
  Two keys with the same \<open>ToUpper\<close> that \<open>addPrefix\<close> treats alike are looked up under
  the same name.
\<close>

lemma ToUpper_addPrefix_cong:
  assumes "ToUpper k = ToUpper k'"
    and "prefix e = [] \<or> HasPrefix (prefix e) k = HasPrefix (prefix e) k'"
  shows "ToUpper (addPrefix e k) = ToUpper (addPrefix e k')"
  using assms by (auto simp: addPrefix_def ToUpper_def)

text \<open>
  C4. The claim: \<open>Get\<close> and \<open>LookUp\<close> give the same result for a key and for any case
  variant of it. As amended: for two keys that differ only in case (two keys with the
  same \<open>ToUpper\<close>), \<open>Get\<close> returns the same outcome and leaves the same world whenever
  the registry has no prefix, and also when it has one, provided the two keys are both,
  or neither, an initial segment of the prefix; in particular whenever neither key is
  an initial segment of the prefix. \<open>LookUp\<close> is not covered, since it looks the key up
  as given.
\<close>

theorem Get_case_insensitive:
  assumes "ToUpper k = ToUpper k'"
    and "prefix e = [] \<or> HasPrefix (prefix e) k = HasPrefix (prefix e) k'"
  shows "Get p e k s = Get p e k' s"
proof -
  from assms(1) have empty: "k = [] \<longleftrightarrow> k' = []"
    by (metis ToUpper_Nil_iff)
  have slot: "ToUpper (addPrefix e k) = ToUpper (addPrefix e k')"
    using assms by (rule ToUpper_addPrefix_cong)
  show ?thesis
    unfolding Get_def using empty slot by simp
qed

theorem Get_case_insensitive_witness:
  "ToUpper ''db_host'' = ToUpper ''Db_Host''
   \<and> (prefix (SetPrefix (Init []) ''app'') = []
        \<or> HasPrefix (prefix (SetPrefix (Init []) ''app'')) ''db_host''
           = HasPrefix (prefix (SetPrefix (Init []) ''app'')) ''Db_Host'')
   \<and> Get simple_reader (SetPrefix (Init []) ''app'') ''db_host''
         (fresh Map.empty
            ((\<lambda>_. NoFile)(''.env'' := Readable [''APP_DB_HOST'' \<mapsto> VString ''localhost''])))
     = Get simple_reader (SetPrefix (Init []) ''app'') ''Db_Host''
         (fresh Map.empty
            ((\<lambda>_. NoFile)(''.env'' := Readable [''APP_DB_HOST'' \<mapsto> VString ''localhost''])))
   \<and> fst (Get simple_reader (SetPrefix (Init []) ''app'') ''db_host''
         (fresh Map.empty
            ((\<lambda>_. NoFile)(''.env'' := Readable [''APP_DB_HOST'' \<mapsto> VString ''localhost'']))))
     = Return (VString ''localhost'')
   \<and> ToUpper ''option_a'' = ToUpper ''Option_A''
   \<and> (prefix (Init []) = []
        \<or> HasPrefix (prefix (Init [])) ''option_a'' = HasPrefix (prefix (Init [])) ''Option_A'')
   \<and> Get simple_reader (Init []) ''option_a''
         (fresh Map.empty ((\<lambda>_. NoFile)(''.env'' := Readable [''OPTION_A'' \<mapsto> VString ''1''])))
     = Get simple_reader (Init []) ''Option_A''
         (fresh Map.empty ((\<lambda>_. NoFile)(''.env'' := Readable [''OPTION_A'' \<mapsto> VString ''1''])))
   \<and> fst (Get simple_reader (Init []) ''option_a''
         (fresh Map.empty ((\<lambda>_. NoFile)(''.env'' := Readable [''OPTION_A'' \<mapsto> VString ''1'']))))
     = Return (VString ''1'')"
  using Get_case_insensitive
    [of "''db_host''" "''Db_Host''" "SetPrefix (Init []) ''app''" simple_reader
        "fresh Map.empty
           ((\<lambda>_. NoFile)(''.env'' := Readable [''APP_DB_HOST'' \<mapsto> VString ''localhost'']))"]
    Get_case_insensitive
    [of "''option_a''" "''Option_A''" "Init []" simple_reader
        "fresh Map.empty ((\<lambda>_. NoFile)(''.env'' := Readable [''OPTION_A'' \<mapsto> VString ''1'']))"]
  by (simp add: Get_def world_eval string_eval)

text \<open>
  Where the claim fails. \<open>LookUp\<close> passes its key to \<open>GetFromFile\<close> without the
  transform: with \<open>OPTION_A=1\<close> in the file, \<open>LookUp("OPTION_A")\<close> is \<open>("1", true)\<close> and
  \<open>LookUp("option_a")\<close> is \<open>("", false)\<close>. And with the prefix \<open>APP_\<close> set, \<open>addPrefix\<close>
  compares the key with the prefix before the key is uppercased: \<open>APP\<close> is an initial
  segment of the prefix and \<open>app\<close> is not, so \<open>Get("APP")\<close> looks up \<open>APP\<close> and
  \<open>Get("app")\<close> looks up \<open>APP_APP\<close>.
\<close>

theorem LookUp_case_sensitive_counterexample:
  "fst (LookUp simple_reader (Init []) ''OPTION_A''
          (fresh Map.empty ((\<lambda>_. NoFile)(''.env'' := Readable [''OPTION_A'' \<mapsto> VString ''1'']))))
     = Return (VString ''1'', True)
   \<and> fst (LookUp simple_reader (Init []) ''option_a''
          (fresh Map.empty ((\<lambda>_. NoFile)(''.env'' := Readable [''OPTION_A'' \<mapsto> VString ''1'']))))
     = Return (VString [], False)
   \<and> fst (Get simple_reader (SetPrefix (Init []) ''app'') ''APP''
          (fresh Map.empty ((\<lambda>_. NoFile)(''.env'' := Readable [''APP'' \<mapsto> VString ''1'']))))
     = Return (VString ''1'')
   \<and> fst (Get simple_reader (SetPrefix (Init []) ''app'') ''app''
          (fresh Map.empty ((\<lambda>_. NoFile)(''.env'' := Readable [''APP'' \<mapsto> VString ''1'']))))
     = Return (VString [])"
  by (simp add: LookUp_def Get_def world_eval string_eval)

subsection \<open>Loading\<close>

text \<open>
  C7. When the configured path does not exist, or names a directory, \<open>LoadConfig\<close>
  returns \<open>os.ErrNotExist\<close> and leaves the world, the cache included, as it was.
\<close>

theorem LoadConfig_not_found:
  assumes "os_Stat p (disk s) (ConfigFile e) = StatNotExist
           \<or> os_Stat p (disk s) (ConfigFile e) = StatInfo True"
  shows "LoadConfig p e s = (Return (Some ErrNotExist), s)"
  using assms by (auto simp: LoadConfig_def checkFileExists_def)

theorem LoadConfig_not_found_witness:
  "(os_Stat simple_reader (disk (fresh Map.empty ((\<lambda>_. NoFile)(''conf'' := Directory))))
        (ConfigFile (Init [''conf''])) = StatNotExist
      \<or> os_Stat simple_reader (disk (fresh Map.empty ((\<lambda>_. NoFile)(''conf'' := Directory))))
        (ConfigFile (Init [''conf''])) = StatInfo True)
   \<and> LoadConfig simple_reader (Init [''conf''])
         (fresh Map.empty ((\<lambda>_. NoFile)(''conf'' := Directory)))
       = (Return (Some ErrNotExist), fresh Map.empty ((\<lambda>_. NoFile)(''conf'' := Directory)))
   \<and> (os_Stat simple_reader (disk (fresh Map.empty (\<lambda>_. NoFile)))
        (ConfigFile (Init [])) = StatNotExist
      \<or> os_Stat simple_reader (disk (fresh Map.empty (\<lambda>_. NoFile)))
        (ConfigFile (Init [])) = StatInfo True)
   \<and> LoadConfig simple_reader (Init []) (fresh Map.empty (\<lambda>_. NoFile))
       = (Return (Some ErrNotExist), fresh Map.empty (\<lambda>_. NoFile))"
  using LoadConfig_not_found
    [of simple_reader "fresh Map.empty ((\<lambda>_. NoFile)(''conf'' := Directory))" "Init [''conf'']"]
    LoadConfig_not_found [of simple_reader "fresh Map.empty (\<lambda>_. NoFile)" "Init []"]
  by (simp add: fresh_def Init_def simple_reader_def)

subsection \<open>Writing into the cache\<close>



text \<open>
  C5. The claim: for all keys and values, \<open>Get(K)\<close> right after \<open>Set(K, V)\<close> returns \<open>V\<close>
  when the environment does not set the transformed key, with no disk involved. As
  amended: this holds for every non-empty key, provided the cache holds an entry for
  the registry's file (so that \<open>Set\<close> returns) and the file is still on disk as a
  regular file when \<open>Get\<close> runs (\<open>GetFromFile\<close> asks \<open>os.Stat\<close> before it looks at the
  cache). The value comes back unchanged whatever its dynamic type, nil included.
\<close>

theorem Set_then_Get_roundtrip:
  assumes "key \<noteq> []" and "mu s = unlocked"
    and "cachedConfig s (ConfigFile e) = Some c"
    and "os_Stat p (disk s) (ConfigFile e) = StatInfo False"
    and "env s (ToUpper (addPrefix e key)) = None"
  shows "and_then (Set_value e key v s) (\<lambda>_. Get p e key) =
           (Return v,
            s\<lparr>cachedConfig :=
                 (cachedConfig s)(ConfigFile e \<mapsto> c(ToUpper (addPrefix e key) \<mapsto> v))\<rparr>)"
proof -
  let ?s1 = "s\<lparr>cachedConfig :=
                 (cachedConfig s)(ConfigFile e \<mapsto> c(ToUpper (addPrefix e key) \<mapsto> v))\<rparr>"
  have set: "Set_value e key v s = (Return (), ?s1)"
    using assms(2,3) by (simp add: Set_value_def Lock_unlocked Unlock_locked)
  have "checkFileExists p (disk ?s1) (ConfigFile e) = Return True"
    using assms(4) by (simp add: checkFileExists_def)
  then have "Get p e key ?s1 = (Return v, ?s1)"
    using assms(1,2,5) by (simp add: Get_cached [where c = "c(ToUpper (addPrefix e key) \<mapsto> v)"])
  with set show ?thesis
    by (simp add: and_then_def)
qed

theorem Set_then_Get_roundtrip_witness:
  "''name'' \<noteq> []
   \<and> mu ((fresh Map.empty ((\<lambda>_. NoFile)(''.env'' := Readable Map.empty)))
            \<lparr>cachedConfig := [''.env'' \<mapsto> Map.empty]\<rparr>) = unlocked
   \<and> cachedConfig ((fresh Map.empty ((\<lambda>_. NoFile)(''.env'' := Readable Map.empty)))
            \<lparr>cachedConfig := [''.env'' \<mapsto> Map.empty]\<rparr>) (ConfigFile (Init [])) = Some Map.empty
   \<and> os_Stat simple_reader
         (disk ((fresh Map.empty ((\<lambda>_. NoFile)(''.env'' := Readable Map.empty)))
            \<lparr>cachedConfig := [''.env'' \<mapsto> Map.empty]\<rparr>)) (ConfigFile (Init [])) = StatInfo False
   \<and> env ((fresh Map.empty ((\<lambda>_. NoFile)(''.env'' := Readable Map.empty)))
            \<lparr>cachedConfig := [''.env'' \<mapsto> Map.empty]\<rparr>)
         (ToUpper (addPrefix (Init []) ''name'')) = None
   \<and> fst (and_then
         (Set_value (Init []) ''name'' (VInt 7)
            ((fresh Map.empty ((\<lambda>_. NoFile)(''.env'' := Readable Map.empty)))
               \<lparr>cachedConfig := [''.env'' \<mapsto> Map.empty]\<rparr>))
         (\<lambda>_. Get simple_reader (Init []) ''name'')) = Return (VInt 7)"
  using Set_then_Get_roundtrip
    [of "''name''"
        "(fresh Map.empty ((\<lambda>_. NoFile)(''.env'' := Readable Map.empty)))
            \<lparr>cachedConfig := [''.env'' \<mapsto> Map.empty]\<rparr>"
        "Init []" Map.empty simple_reader "VInt 7"]
  by (simp add: fresh_def Init_def DefaultConfigFile_def simple_reader_def addPrefix_def)

text \<open>
  Where the claim fails. \<open>Get("")\<close> returns the empty string without any lookup, so a
  value stored by \<open>Set("", "v")\<close> does not come back. And when the file has been removed
  after it was loaded, \<open>Set("name", "v")\<close> still writes into the cached entry, while
  \<open>Get("name")\<close> finds no file, never reaches the cache and returns the empty string.
\<close>

theorem Set_then_Get_counterexample:
  "fst (and_then
         (Set_value (Init []) [] (VString ''v'')
            ((fresh Map.empty ((\<lambda>_. NoFile)(''.env'' := Readable Map.empty)))
               \<lparr>cachedConfig := [''.env'' \<mapsto> Map.empty]\<rparr>))
         (\<lambda>_. Get simple_reader (Init []) [])) = Return (VString [])
   \<and> fst (and_then
         (Set_value (Init []) ''name'' (VString ''v'')
            ((fresh Map.empty (\<lambda>_. NoFile))\<lparr>cachedConfig := [''.env'' \<mapsto> Map.empty]\<rparr>))
         (\<lambda>_. Get simple_reader (Init []) ''name'')) = Return (VString [])
   \<and> VString [] \<noteq> VString ''v''"
  by (simp add: Set_value_def Get_def world_eval string_eval)

subsection \<open>\<open>Save\<close> and the lock\<close>

text \<open>
  \<open>Save\<close> holds the shared lock while \<open>writeConfig\<close> runs, and the invalidation deferred
  in \<open>writeConfig\<close> asks for the exclusive lock: it is never granted. Called on its own
  with the lock free, \<open>writeConfig\<close> does return and does remove the entry.
\<close>

lemma Save_unlocked:
  assumes "mu s = unlocked"
  shows "Save w e s =
     (Deadlock,
      s\<lparr>mu := unlocked\<lparr>readers := 1\<rparr>,
        disk := snd (WriteFile w (os_MkdirAll w (disk s) (filepath_Join w (ConfigFile e) ''..''))
                       (ConfigFile e) (cfgData_of w e (cachedConfig s (ConfigFile e))))\<rparr>)"
  using assms
  by (simp add: Save_def RLock_def writeConfig_def InvalidateEnvCacheForFile_def Lock_def
      and_then_def unlocked_def Let_def)

lemma writeConfig_unlocked:
  assumes "mu s = unlocked"
  shows "fst (writeConfig w f data s) =
           Return (case fst (WriteFile w (os_MkdirAll w (disk s) (filepath_Join w f ''..'')) f data)
                   of Some err \<Rightarrow> Some (FailedToWrite err) | None \<Rightarrow> None)"
    and "cachedConfig (snd (writeConfig w f data s)) = (cachedConfig s)(f := None)"
  using assms
  by (simp_all add: writeConfig_def InvalidateEnvCacheForFile_def Lock_def Unlock_def
      and_then_def unlocked_def Let_def)

text \<open>
  C6. The claim: after every call to \<open>Save\<close>, whether the write succeeds or fails, the
  cache entry of the registry's file has been removed and the other entries are
  unchanged. In the code, a call to \<open>Save\<close> that starts with the lock free, whatever
  \<open>WriteFile\<close> answers, stops in the deferred \<open>InvalidateEnvCacheForFile\<close> and never
  returns, and the cache is exactly as it was before the call: the entry is not removed.
\<close>

theorem Save_never_invalidates:
  "fst (Save w e (s\<lparr>mu := unlocked\<rparr>)) = Deadlock
   \<and> cachedConfig (snd (Save w e (s\<lparr>mu := unlocked\<rparr>))) = cachedConfig s"
  by (simp add: Save_unlocked)

text \<open>
  C9. The claim: writes exclude all other operations for their duration and every
  operation completes, a single call to \<open>Save\<close> on one goroutine included. In the code,
  \<open>Save\<close> on one goroutine, started with the lock free, never completes; where it
  stops, the lock is held by one reader and no writer, and a request for the exclusive
  lock (the deferred \<open>InvalidateEnvCacheForFile\<close>, for any file) blocks.
\<close>

theorem Save_self_deadlock:
  "fst (Save w e (s\<lparr>mu := unlocked\<rparr>)) = Deadlock
   \<and> mu (snd (Save w e (s\<lparr>mu := unlocked\<rparr>))) = \<lparr>writer = False, readers = 1\<rparr>
   \<and> fst (InvalidateEnvCacheForFile f (snd (Save w e (s\<lparr>mu := unlocked\<rparr>)))) = Deadlock"
  by (simp add: Save_unlocked InvalidateEnvCacheForFile_def Lock_def unlocked_def)

subsection \<open>\<open>IsSet\<close>\<close>

text \<open>
  C10. The claim: for a non-empty key absent from the environment, the cache and the
  file, \<open>IsSet\<close> returns true, and \<open>IsSet\<close> returns false only when nil was stored
  under the key by \<open>Set\<close>. As amended: for a non-empty key that is not set in the
  environment, with the lock free and \<open>os.Stat\<close> answering without an error other than
  not-exist, \<open>IsSet\<close> returns false exactly when \<open>Get\<close> returns nil, that is, when the
  file is a regular file and either the mapping consulted for it (the cached entry, or
  else the one just parsed) holds nil under the transformed key, or nothing is cached
  and \<open>readAndParseConfig\<close> fails. In every other case, a key absent from that mapping
  or a missing file included, \<open>IsSet\<close> returns true.
\<close>

theorem IsSet_false_only_for_nil:
  assumes "key \<noteq> []" "mu s = unlocked"
    and "env s (ToUpper (addPrefix e key)) = None"
    and "os_Stat p (disk s) (ConfigFile e) \<noteq> StatError"
  shows "fst (IsSet p e key s) =
           Return (\<not> (os_Stat p (disk s) (ConfigFile e) = StatInfo False
                      \<and> (case cachedConfig s (ConfigFile e) of
                           Some c \<Rightarrow> c (ToUpper (addPrefix e key)) = Some VNil
                         | None \<Rightarrow>
                             (case readAndParseConfig p (disk s) (ConfigFile e) (Separator e) of
                                Inl err \<Rightarrow> True
                              | Inr c \<Rightarrow> c (ToUpper (addPrefix e key)) = Some VNil))))"
proof (cases "os_Stat p (disk s) (ConfigFile e) = StatInfo False")
  case False
  with assms(4) have "checkFileExists p (disk s) (ConfigFile e) = Return False"
    by (cases "os_Stat p (disk s) (ConfigFile e)") (auto simp: checkFileExists_def)
  with assms False show ?thesis
    by (simp add: IsSet_def and_then_def Get_file_missing)
next
  case True
  then have ex: "checkFileExists p (disk s) (ConfigFile e) = Return True"
    by (simp add: checkFileExists_def)
  show ?thesis
  proof (cases "cachedConfig s (ConfigFile e)")
    case (Some c)
    with assms ex True show ?thesis
      by (simp add: IsSet_def and_then_def Get_cached split: option.splits)
  next
    case None
    show ?thesis
    proof (cases "readAndParseConfig p (disk s) (ConfigFile e) (Separator e)")
      case (Inl err)
      with assms ex True None show ?thesis
        by (simp add: IsSet_def and_then_def Get_unreadable)
    next
      case (Inr c)
      with assms ex True None show ?thesis
        by (simp add: IsSet_def and_then_def Get_populate split: option.splits)
    qed
  qed
qed

theorem IsSet_false_only_for_nil_witness:
  "''missing'' \<noteq> []
   \<and> mu (fresh Map.empty (\<lambda>_. NoFile)) = unlocked
   \<and> env (fresh Map.empty (\<lambda>_. NoFile)) (ToUpper (addPrefix (Init []) ''missing'')) = None
   \<and> os_Stat simple_reader (disk (fresh Map.empty (\<lambda>_. NoFile))) (ConfigFile (Init [])) \<noteq> StatError
   \<and> fst (IsSet simple_reader (Init []) ''missing'' (fresh Map.empty (\<lambda>_. NoFile))) = Return True"
  using IsSet_false_only_for_nil
    [of "''missing''" "fresh Map.empty (\<lambda>_. NoFile)" "Init []" simple_reader]
  by (simp add: fresh_def Init_def simple_reader_def)

text \<open>
  Where the claim fails. The file is on disk and cannot be read, nothing is cached, and
  nobody has called \<open>Set\<close>: \<open>GetFromFile\<close> returns nil with the read error, \<open>Get\<close>
  returns that nil, and \<open>IsSet\<close> returns false for a key that is nowhere.
\<close>

theorem IsSet_read_failure_counterexample:
  "fst (IsSet simple_reader (Init []) ''missing''
          (fresh Map.empty ((\<lambda>_. NoFile)(''.env'' := Unreadable (IOError ''permission denied'')))))
     = Return False"
  by (simp add: IsSet_def Get_def world_eval string_eval)

end
